theory Spec2Isabelle
  imports Complex_Main
begin

section \<open>The catalog: data model of \<open>data/database.py\<close>\<close>

text \<open>
  The catalog is an SQLite file with the tables \<open>files\<close>, \<open>topics\<close>, \<open>metadata\<close> and the
  full-text table \<open>files_fts\<close> (\<open>Database._create_tables\<close>). A table is the list of its rows
  in storage order. Columns that may hold NULL are options; \<open>path\<close> and \<open>filename\<close> are declared
  \<open>NOT NULL\<close> and are plain strings. Timestamps are Python \<open>datetime\<close> values, written
  by the driver as ISO text and read back with \<open>datetime.fromisoformat\<close>; they are modelled as
  the number of microseconds they denote, which that round trip preserves. The column
  \<open>indexed_time\<close> (a default of the engine's clock) and the table \<open>config\<close> are read or
  written by none of the modelled operations and are left out.

  \<open>files_fts\<close> is a full-text index declared over the content of \<open>files\<close>
  (\<open>content='files', content_rowid='id'\<close>): it stores tokens, not texts. It is modelled
  as the list of its entries; an entry stands for the tokens that one \<open>INSERT\<close> put into
  the index under a rowid and that are still there. For such a table
  \<open>DELETE FROM files_fts WHERE rowid = ?\<close> takes the texts whose tokens it removes from
  the row of \<open>files\<close> with that id, as that row is when the statement runs; when \<open>files\<close>
  has no such row it removes nothing.

  Strings are over the code points below 256, all of which the database driver can encode.
  Ids and limits are taken within the 64-bit integers the driver can bind; the size of a
  \<open>file_info\<close> is any Python integer.
\<close>

type_synonym timestamp = int

text \<open>
  What a call can raise. \<open>UncaughtBaseException\<close> is an exception that is not an instance
  of \<open>Exception\<close> (\<open>KeyboardInterrupt\<close>, \<open>SystemExit\<close>), with its name.
\<close>

datatype error =
  IntegrityError | OperationalError | KeyError | ValueError | OSError | OverflowError |
  UncaughtBaseException string

record file_row =
  f_id :: int
  f_path :: string
  f_filename :: string
  f_extension :: "string option"
  f_file_type :: "string option"
  f_size :: "int option"
  f_modified_time :: "timestamp option"
  f_created_time :: "timestamp option"
  f_content_text :: "string option"
  f_topic_id :: "int option"
  f_embedding_vector :: "string option"

record topic_row =
  t_id :: int
  t_name :: string
  t_keywords :: "string list"
  t_representative_docs :: "string list"

record metadata_row =
  m_id :: int
  m_file_id :: int
  m_key :: string
  m_value :: "string option"

record fts_row =
  fts_rowid :: int
  fts_filename :: string
  fts_content_text :: string

text \<open>
  \<open>files_seq\<close> is the counter SQLite keeps for an \<open>AUTOINCREMENT\<close> key: the largest id ever
  given to a row of \<open>files\<close>.
\<close>

record database =
  files :: "file_row list"
  files_seq :: int
  topics :: "topic_row list"
  metadata :: "metadata_row list"
  files_fts :: "fts_row list"

text \<open>
  The dictionary \<open>file_info\<close> handed to \<open>insert_file\<close>. A field is \<open>None\<close> when the key is
  absent, which is what \<open>file_info.get(key)\<close> then returns.
\<close>

record file_info =
  fi_path :: "string option"
  fi_filename :: "string option"
  fi_extension :: "string option"
  fi_file_type :: "string option"
  fi_size :: "int option"
  fi_modified_time :: "timestamp option"
  fi_created_time :: "timestamp option"
  fi_content_text :: "string option"

text \<open>The catalog right after \<open>_create_tables\<close> on a new file.\<close>

definition empty_database :: database where
  "empty_database =
     \<lparr>files = [], files_seq = 0, topics = [], metadata = [], files_fts = []\<rparr>"

subsection \<open>Reads\<close>

text \<open>\<open>SELECT * FROM files WHERE path = ?\<close> followed by \<open>fetchone()\<close>.\<close>

definition get_file_by_path :: "database \<Rightarrow> string \<Rightarrow> file_row option" where
  "get_file_by_path db path = find (\<lambda>r. f_path r = path) (files db)"

definition get_file_by_id :: "database \<Rightarrow> int \<Rightarrow> file_row option" where
  "get_file_by_id db file_id = find (\<lambda>r. f_id r = file_id) (files db)"

definition get_all_files :: "database \<Rightarrow> file_row list" where
  "get_all_files db = files db"

subsection \<open>Writes\<close>

text \<open>The id an \<open>AUTOINCREMENT\<close> key gives the next row: one more than every id used so far.\<close>

definition next_rowid :: "database \<Rightarrow> int" where
  "next_rowid db = fold max (map f_id (files db)) (files_seq db) + 1"

text \<open>\<open>file_info.get('content_text', '')\<close>.\<close>

definition content_or_empty :: "file_info \<Rightarrow> string" where
  "content_or_empty file_info = (case fi_content_text file_info of None \<Rightarrow> [] | Some c \<Rightarrow> c)"

text \<open>The \<open>UPDATE files SET ... WHERE id = ?\<close> of \<open>insert_file\<close>, on one row.\<close>

definition update_row :: "file_info \<Rightarrow> string \<Rightarrow> file_row \<Rightarrow> file_row" where
  "update_row file_info filename r =
     r\<lparr>f_filename := filename,
       f_extension := fi_extension file_info,
       f_file_type := fi_file_type file_info,
       f_size := fi_size file_info,
       f_modified_time := fi_modified_time file_info,
       f_created_time := fi_created_time file_info,
       f_content_text := Some (content_or_empty file_info)\<rparr>"

text \<open>The row of \<open>INSERT INTO files (path, filename, ...)\<close>; the other columns are NULL.\<close>

definition new_row :: "file_info \<Rightarrow> int \<Rightarrow> string \<Rightarrow> string \<Rightarrow> file_row" where
  "new_row file_info file_id path filename =
     \<lparr>f_id = file_id, f_path = path, f_filename = filename,
      f_extension = fi_extension file_info,
      f_file_type = fi_file_type file_info,
      f_size = fi_size file_info,
      f_modified_time = fi_modified_time file_info,
      f_created_time = fi_created_time file_info,
      f_content_text = Some (content_or_empty file_info),
      f_topic_id = None, f_embedding_vector = None\<rparr>"

text \<open>
  The driver binds a Python integer as a signed 64-bit integer and raises
  \<open>OverflowError\<close> for one that does not fit. It binds the parameters of a statement
  before the statement runs.
\<close>

definition bindable_size :: "file_info \<Rightarrow> bool" where
  "bindable_size file_info =
     (case fi_size file_info of None \<Rightarrow> True | Some n \<Rightarrow> - (2 ^ 63) \<le> n \<and> n < 2 ^ 63)"

text \<open>
  The two statements on \<open>files_fts\<close> in the update branch of \<open>insert_file\<close>:
  \<open>DELETE ... WHERE rowid = ?\<close>, which runs after the \<open>UPDATE\<close> and so removes the
  tokens of the row's new texts, then the \<open>INSERT\<close> of those same texts. An entry that
  was inserted with other texts stays in the index.
\<close>

definition reindex :: "fts_row list \<Rightarrow> fts_row \<Rightarrow> fts_row list" where
  "reindex idx entry = filter (\<lambda>e. e \<noteq> entry) idx @ [entry]"

text \<open>
  \<open>Database.insert_file\<close>. The function looks the path up; on a hit it updates that row and
  deletes from the full-text index, otherwise it inserts a row; then it inserts into the
  full-text index and commits. It checks nothing itself. The first statement that writes
  (the \<open>UPDATE\<close> or the \<open>INSERT\<close>) fails, before anything has changed, when its size
  cannot be bound (\<open>OverflowError\<close>) and otherwise when it breaks a constraint of the
  table (\<open>path TEXT UNIQUE NOT NULL\<close>, \<open>filename TEXT NOT NULL\<close>: the database's
  \<open>IntegrityError\<close>). \<open>WHERE path = NULL\<close> selects no row.
\<close>

definition insert_file :: "database \<Rightarrow> file_info \<Rightarrow> error + (database \<times> int)" where
  "insert_file db file_info =
     (case (case fi_path file_info of None \<Rightarrow> None | Some p \<Rightarrow> get_file_by_path db p) of
        Some existing \<Rightarrow>
          (let file_id = f_id existing in
           if \<not> bindable_size file_info then Inl OverflowError
           else
             (case fi_filename file_info of
                None \<Rightarrow> Inl IntegrityError
              | Some filename \<Rightarrow>
                  Inr (db\<lparr>files :=
                             map (\<lambda>r. if f_id r = file_id then update_row file_info filename r
                                       else r)
                               (files db),
                           files_fts :=
                             reindex (files_fts db)
                               \<lparr>fts_rowid = file_id, fts_filename = filename,
                                 fts_content_text = content_or_empty file_info\<rparr>\<rparr>,
                       file_id)))
      | None \<Rightarrow>
          if \<not> bindable_size file_info then Inl OverflowError
          else
            (case fi_path file_info of
               None \<Rightarrow> Inl IntegrityError
             | Some path \<Rightarrow>
                 (case fi_filename file_info of
                    None \<Rightarrow> Inl IntegrityError
                  | Some filename \<Rightarrow>
                      if path \<in> set (map f_path (files db)) then Inl IntegrityError
                      else
                        (let file_id = next_rowid db in
                         Inr (db\<lparr>files := files db @ [new_row file_info file_id path filename],
                                  files_seq := file_id,
                                  files_fts :=
                                    files_fts db @
                                    [\<lparr>fts_rowid = file_id, fts_filename = filename,
                                      fts_content_text = content_or_empty file_info\<rparr>]\<rparr>,
                              file_id)))))"

definition update_file_topic :: "database \<Rightarrow> int \<Rightarrow> int \<Rightarrow> string option \<Rightarrow> database" where
  "update_file_topic db file_id topic_id embedding =
     db\<lparr>files :=
          map (\<lambda>r. if f_id r = file_id
                    then r\<lparr>f_topic_id := Some topic_id, f_embedding_vector := embedding\<rparr>
                    else r)
            (files db)\<rparr>"

text \<open>
  \<open>Database.delete_file\<close>: \<open>DELETE FROM files WHERE id = ?\<close>, then
  \<open>DELETE FROM files_fts WHERE rowid = ?\<close>. When the second statement runs the row of
  \<open>files\<close> is gone, so it finds no texts to remove and the index keeps the entries of
  that rowid. The table \<open>metadata\<close> declares
  \<open>FOREIGN KEY (file_id) REFERENCES files(id) ON DELETE CASCADE\<close>, but SQLite applies
  foreign-key actions only on a connection that has run \<open>PRAGMA foreign_keys = ON\<close>;
  \<open>_init_database\<close> opens the connection with \<open>sqlite3.connect\<close> and runs no pragma, and
  no other statement of the program does. So only \<open>files\<close> changes.
\<close>

definition delete_file :: "database \<Rightarrow> int \<Rightarrow> database" where
  "delete_file db file_id = db\<lparr>files := filter (\<lambda>r. f_id r \<noteq> file_id) (files db)\<rparr>"

definition delete_file_by_path :: "database \<Rightarrow> string \<Rightarrow> database" where
  "delete_file_by_path db path =
     (case get_file_by_path db path of
        Some file \<Rightarrow> delete_file db (f_id file)
      | None \<Rightarrow> db)"

text \<open>\<open>INSERT OR REPLACE INTO topics\<close>: a row with the same id is replaced.\<close>

definition insert_topic :: "database \<Rightarrow> int \<Rightarrow> string \<Rightarrow> string list \<Rightarrow> string list \<Rightarrow> database" where
  "insert_topic db topic_id name keywords representative_docs =
     db\<lparr>topics :=
          filter (\<lambda>t. t_id t \<noteq> topic_id) (topics db) @
          [\<lparr>t_id = topic_id, t_name = name, t_keywords = keywords,
            t_representative_docs = representative_docs\<rparr>]\<rparr>"

text \<open>
  \<open>clear_all_data\<close> deletes the rows of \<open>files\<close>, \<open>topics\<close> and \<open>metadata\<close>, then
  runs \<open>DELETE FROM files_fts\<close>; \<open>files\<close> is empty by then, so the index keeps its
  entries. The id counter is kept.
\<close>

definition clear_all_data :: "database \<Rightarrow> database" where
  "clear_all_data db = db\<lparr>files := [], topics := [], metadata := []\<rparr>"

text \<open>
  The catalogs the program can build: starting from a new file, any sequence of the writing
  operations of \<open>Database\<close>. A failed \<open>insert_file\<close> leaves the catalog as it was.
\<close>

inductive reachable :: "database \<Rightarrow> bool" where
  r_init: "reachable empty_database"
| r_insert: "reachable db \<Longrightarrow> insert_file db file_info = Inr (db', file_id) \<Longrightarrow> reachable db'"
| r_topic: "reachable db \<Longrightarrow> reachable (update_file_topic db file_id topic_id embedding)"
| r_delete: "reachable db \<Longrightarrow> reachable (delete_file db file_id)"
| r_delete_path: "reachable db \<Longrightarrow> reachable (delete_file_by_path db path)"
| r_insert_topic: "reachable db \<Longrightarrow> reachable (insert_topic db topic_id name kws docs)"
| r_clear: "reachable db \<Longrightarrow> reachable (clear_all_data db)"

text \<open>The facts the proof of path uniqueness carries along.\<close>

definition store_inv :: "database \<Rightarrow> bool" where
  "store_inv db \<longleftrightarrow> distinct (map f_path (files db)) \<and> distinct (map f_id (files db))"

section \<open>Python strings\<close>

text \<open>
  A string is the list of its characters; the characters are the code points below 256.
  \<open>char_lower\<close> is \<open>str.lower\<close> on one such character, \<open>is_space\<close> is \<open>str.isspace\<close>.
\<close>

definition char_lower :: "char \<Rightarrow> char" where
  "char_lower c =
     (let n = (of_char c :: nat)
      in if (65 \<le> n \<and> n \<le> 90) \<or> (192 \<le> n \<and> n \<le> 222 \<and> n \<noteq> 215)
         then char_of (n + 32) else c)"

definition py_lower :: "string \<Rightarrow> string" where
  "py_lower s = map char_lower s"

definition is_space :: "char \<Rightarrow> bool" where
  "is_space c \<longleftrightarrow>
     (let n = (of_char c :: nat)
      in (9 \<le> n \<and> n \<le> 13) \<or> (28 \<le> n \<and> n \<le> 32) \<or> n = 133 \<or> n = 160)"

text \<open>\<open>s.strip()\<close>: leading and trailing whitespace removed.\<close>

definition py_strip :: "string \<Rightarrow> string" where
  "py_strip s = rev (dropWhile is_space (rev (dropWhile is_space s)))"

text \<open>\<open>s.split()\<close>: the maximal runs of characters that are not whitespace.\<close>

fun split_words :: "string \<Rightarrow> string \<Rightarrow> string list" where
  "split_words w [] = (if w = [] then [] else [w])"
| "split_words w (c # cs) =
     (if is_space c then (if w = [] then split_words [] cs else w # split_words [] cs)
      else split_words (w @ [c]) cs)"

definition py_split :: "string \<Rightarrow> string list" where
  "py_split s = split_words [] s"

text \<open>\<open>sub in s\<close>: \<open>sub\<close> occurs in \<open>s\<close> as a contiguous substring.\<close>

fun py_in :: "string \<Rightarrow> string \<Rightarrow> bool" where
  "py_in sub [] = (sub = [])"
| "py_in sub (c # cs) = (take (length sub) (c # cs) = sub \<or> py_in sub cs)"

text \<open>
  \<open>s.count(sub)\<close>: the occurrences of \<open>sub\<close> in \<open>s\<close> that do not overlap, scanned from
  the left; after a match the scan resumes behind it (\<open>skip\<close> characters are passed over).
  The empty string occurs \<open>len(s) + 1\<close> times.
\<close>

fun count_from :: "nat \<Rightarrow> string \<Rightarrow> string \<Rightarrow> nat" where
  "count_from skip sub [] = 0"
| "count_from skip sub (c # cs) =
     (if 0 < skip then count_from (skip - 1) sub cs
      else if take (length sub) (c # cs) = sub then 1 + count_from (length sub - 1) sub cs
      else count_from 0 sub cs)"

definition py_count :: "string \<Rightarrow> string \<Rightarrow> nat" where
  "py_count s sub = (if sub = [] then length s + 1 else count_from 0 sub s)"

text \<open>\<open>xs[:n]\<close>: a negative \<open>n\<close> counts from the end.\<close>

definition py_take :: "int \<Rightarrow> 'a list \<Rightarrow> 'a list" where
  "py_take n xs = (if n < 0 then take (nat (int (length xs) + n)) xs else take (nat n) xs)"

text \<open>
  \<open>xs.sort(key=k, reverse=True)\<close>: descending by key, and elements with equal keys keep
  the order they had. That is the stable ascending sort by the negated key.
\<close>

definition sort_desc :: "('a \<Rightarrow> real) \<Rightarrow> 'a list \<Rightarrow> 'a list" where
  "sort_desc k xs = sort_key (\<lambda>x. - k x) xs"

section \<open>Full-text search: \<open>Database.search_files_by_keyword\<close>\<close>

text \<open>
  The statement is
  \<^verbatim>\<open>SELECT f.* FROM files f JOIN files_fts fts ON f.id = fts.rowid
  WHERE files_fts MATCH ? ORDER BY rank LIMIT ?\<close>
  with the keyword bound to \<open>MATCH\<close> as it is. What the full-text engine does with it is
  not code of this program and is a parameter: whether the keyword parses as a query
  (\<open>match_syntax_ok\<close>) and, given the index, which rowids it matches and the rank of each
  (smaller is more relevant). The engine yields the matching rowids in ascending order and
  each rowid once, and its sort by rank keeps that order among equal ranks; the statement
  names no second sort key.
\<close>

record fts_engine =
  match_syntax_ok :: "string \<Rightarrow> bool"
  match_row :: "fts_row list \<Rightarrow> string \<Rightarrow> int \<Rightarrow> bool"
  rank_row :: "fts_row list \<Rightarrow> string \<Rightarrow> int \<Rightarrow> real"

text \<open>\<open>LIMIT n\<close>: a negative \<open>n\<close> is no limit.\<close>

definition sql_limit :: "int \<Rightarrow> 'a list \<Rightarrow> 'a list" where
  "sql_limit n xs = (if n < 0 then xs else take (nat n) xs)"

text \<open>The rowids that have tokens in the index, ascending.\<close>

definition indexed_rowids :: "fts_row list \<Rightarrow> int list" where
  "indexed_rowids idx = sort (remdups (map fts_rowid idx))"

text \<open>The matching rowids joined with their rows of \<open>files\<close>, each with its rank.\<close>

definition fts_hits :: "fts_engine \<Rightarrow> database \<Rightarrow> string \<Rightarrow> (file_row \<times> real) list" where
  "fts_hits eng db keyword =
     concat (map (\<lambda>rowid. map (\<lambda>f. (f, rank_row eng (files_fts db) keyword rowid))
                             (filter (\<lambda>f. f_id f = rowid) (files db)))
               (filter (match_row eng (files_fts db) keyword) (indexed_rowids (files_fts db))))"

definition ranked_search ::
  "fts_engine \<Rightarrow> database \<Rightarrow> string \<Rightarrow> int \<Rightarrow> error + (file_row \<times> real) list" where
  "ranked_search eng db keyword limit =
     (if \<not> match_syntax_ok eng keyword then Inl OperationalError
      else Inr (sql_limit limit (sort_key snd (fts_hits eng db keyword))))"

definition search_files_by_keyword ::
  "fts_engine \<Rightarrow> database \<Rightarrow> string \<Rightarrow> int \<Rightarrow> error + file_row list" where
  "search_files_by_keyword eng db keyword limit =
     (case ranked_search eng db keyword limit of
        Inl e \<Rightarrow> Inl e
      | Inr rows \<Rightarrow> Inr (map fst rows))"

section \<open>The searcher: \<open>engine/searcher.py\<close>\<close>

text \<open>The score \<open>_keyword_search\<close> gives one row of the full-text result.\<close>

definition keyword_score :: "string \<Rightarrow> file_row \<Rightarrow> real" where
  "keyword_score query file =
     (let score = (if py_in (py_lower query) (py_lower (f_filename file)) then 0.5 else 0);
          content = (case f_content_text file of None \<Rightarrow> [] | Some c \<Rightarrow> c)
      in if content \<noteq> []
         then (let count = py_count (py_lower content) (py_lower query);
                   normalized_count =
                     real count / real (max (length (py_split content)) 1) * 100
               in score + min normalized_count 0.5)
         else score)"

definition keyword_search ::
  "fts_engine \<Rightarrow> database \<Rightarrow> string \<Rightarrow> int \<Rightarrow> error + (file_row \<times> real) list" where
  "keyword_search eng db query limit =
     (case search_files_by_keyword eng db query limit of
        Inl e \<Rightarrow> Inl e
      | Inr results \<Rightarrow>
          Inr (sort_desc snd (map (\<lambda>file. (file, keyword_score query file)) results)))"

text \<open>
  The topic model is used through \<open>find_similar_documents(query, top_n)\<close> alone, which
  returns pairs of a file id and a similarity or raises. What it raises is an instance of
  \<open>Exception\<close> or an exception outside that class (\<open>KeyboardInterrupt\<close>,
  \<open>SystemExit\<close>), each with its name or message. The similarity is a cosine similarity,
  taken as it comes. A run records what the provider did when it was called.
\<close>

datatype raised = Exception string | BaseException string

type_synonym topic_model = "string \<Rightarrow> int \<Rightarrow> raised + (int \<times> real) list"

datatype event = ProviderReturned string int | ProviderRaised string int raised

text \<open>
  \<open>_semantic_search\<close>: the call and the loop over its result stand in one
  \<open>try\<close> whose \<open>except Exception\<close> returns the empty list. An exception outside
  \<open>Exception\<close> is not caught there.
\<close>

definition semantic_search ::
  "database \<Rightarrow> topic_model option \<Rightarrow> string \<Rightarrow> int \<Rightarrow>
   (error + (file_row \<times> real) list) \<times> event list" where
  "semantic_search db tm query limit =
     (case tm of
        None \<Rightarrow> (Inr [], [])
      | Some find_similar_documents \<Rightarrow>
          (case find_similar_documents query limit of
             Inl (Exception e) \<Rightarrow> (Inr [], [ProviderRaised query limit (Exception e)])
           | Inl (BaseException e) \<Rightarrow>
               (Inl (UncaughtBaseException e), [ProviderRaised query limit (BaseException e)])
           | Inr similar_docs \<Rightarrow>
               (Inr (concat (map (\<lambda>doc_info.
                                    case get_file_by_id db (fst doc_info) of
                                      None \<Rightarrow> []
                                    | Some file \<Rightarrow> [(file, snd doc_info)])
                               similar_docs)),
                [ProviderReturned query limit])))"

text \<open>
  \<open>_combine_results\<close> collects the candidates in a dictionary keyed by path; a Python
  dictionary keeps its keys in the order of their first insertion, so it is an association
  list with one entry per key.
\<close>

record combined_entry =
  c_file :: file_row
  c_keyword_score :: real
  c_semantic_score :: real

definition add_candidate ::
  "(string \<times> combined_entry) list \<Rightarrow> file_row \<Rightarrow> (string \<times> combined_entry) list" where
  "add_candidate combined file =
     (if f_path file \<notin> set (map fst combined)
      then combined @ [(f_path file, \<lparr>c_file = file, c_keyword_score = 0, c_semantic_score = 0\<rparr>)]
      else combined)"

definition set_keyword_score ::
  "file_row \<times> real \<Rightarrow> (string \<times> combined_entry) list \<Rightarrow> (string \<times> combined_entry) list" where
  "set_keyword_score fs combined =
     map (\<lambda>pd. if fst pd = f_path (fst fs) then (fst pd, (snd pd)\<lparr>c_keyword_score := snd fs\<rparr>) else pd)
       (add_candidate combined (fst fs))"

definition set_semantic_score ::
  "file_row \<times> real \<Rightarrow> (string \<times> combined_entry) list \<Rightarrow> (string \<times> combined_entry) list" where
  "set_semantic_score fs combined =
     map (\<lambda>pd. if fst pd = f_path (fst fs) then (fst pd, (snd pd)\<lparr>c_semantic_score := snd fs\<rparr>) else pd)
       (add_candidate combined (fst fs))"

definition final_score :: "real \<Rightarrow> real \<Rightarrow> real \<Rightarrow> combined_entry \<Rightarrow> real" where
  "final_score keyword_weight semantic_weight metadata_weight d =
     (let kw_score = min (c_keyword_score d) 1.0;
          sem_score = min (c_semantic_score d) 1.0
      in keyword_weight * kw_score + semantic_weight * sem_score + metadata_weight * 0)"

definition combine_results ::
  "(file_row \<times> real) list \<Rightarrow> (file_row \<times> real) list \<Rightarrow> real \<Rightarrow> real \<Rightarrow> real \<Rightarrow>
   (file_row \<times> real) list" where
  "combine_results keyword_results semantic_results keyword_weight semantic_weight metadata_weight =
     (let combined = fold set_keyword_score keyword_results [];
          combined = fold set_semantic_score semantic_results combined;
          final_results =
            map (\<lambda>pd. (c_file (snd pd),
                       final_score keyword_weight semantic_weight metadata_weight (snd pd)))
              combined
      in sort_desc snd final_results)"

text \<open>
  \<open>Searcher.search\<close>, with the events of the run. The lexical stage runs first and its
  error, if any, ends the run; the provider is called only after it, and what
  \<open>_semantic_search\<close> does not catch ends the run too.
\<close>

definition search_run ::
  "fts_engine \<Rightarrow> database \<Rightarrow> topic_model option \<Rightarrow> string \<Rightarrow> int \<Rightarrow> bool \<Rightarrow>
   (error + (file_row \<times> real) list) \<times> event list" where
  "search_run eng db tm query max_results use_semantic =
     (if py_strip query = [] then (Inr [], [])
      else
        (case keyword_search eng db query (max_results * 2) of
           Inl e \<Rightarrow> (Inl e, [])
         | Inr keyword_results \<Rightarrow>
             (let sem = (if use_semantic \<and> tm \<noteq> None
                         then semantic_search db tm query (max_results * 2)
                         else (Inr [], []))
              in case fst sem of
                   Inl e \<Rightarrow> (Inl e, snd sem)
                 | Inr semantic_results \<Rightarrow>
                     (let combined_results =
                            combine_results keyword_results semantic_results 0.4
                              (if use_semantic then 0.5 else 0) 0.1
                      in (Inr (py_take max_results combined_results), snd sem)))))"

definition search ::
  "fts_engine \<Rightarrow> database \<Rightarrow> topic_model option \<Rightarrow> string \<Rightarrow> int \<Rightarrow> bool \<Rightarrow>
   error + (file_row \<times> real) list" where
  "search eng db tm query max_results use_semantic =
     fst (search_run eng db tm query max_results use_semantic)"

section \<open>The indexer: \<open>engine/indexer.py\<close>\<close>

text \<open>
  The indexer sees the file system and the text extraction through its scanner. These are
  parameters: whether a path exists, whether its type is supported, the \<open>file_info\<close> of
  a path (\<open>get_file_info\<close>, which raises when the file cannot be read) and the
  extraction (which raises with a message, or returns the text).
\<close>

record scanner =
  path_exists :: "string \<Rightarrow> bool"
  is_supported :: "string \<Rightarrow> bool"
  get_file_info :: "string \<Rightarrow> error + file_info"
  extract_text_content :: "string \<Rightarrow> string + string"

text \<open>What a step of the indexer did besides returning: extraction calls and store writes.\<close>

datatype effect = Extracted string | Written file_info | Deleted string

text \<open>
  The comparison at the head of \<open>_index_file\<close>: \<open>Inr True\<close> when a record exists whose
  stored modified-time is at least the candidate's. \<open>str(None)\<close> is no ISO date
  (\<open>ValueError\<close>); \<open>file_info['modified_time']\<close> on an absent key is a \<open>KeyError\<close>.
\<close>

definition unmodified :: "database \<Rightarrow> string \<Rightarrow> file_info \<Rightarrow> error + bool" where
  "unmodified db path file_info =
     (case get_file_by_path db path of
        None \<Rightarrow> Inr False
      | Some existing \<Rightarrow>
          (case f_modified_time existing of
             None \<Rightarrow> Inl ValueError
           | Some existing_mtime \<Rightarrow>
               (case fi_modified_time file_info of
                  None \<Rightarrow> Inl KeyError
                | Some new_mtime \<Rightarrow> Inr (existing_mtime \<ge> new_mtime))))"

definition index_file ::
  "scanner \<Rightarrow> database \<Rightarrow> file_info \<Rightarrow> error + (database \<times> effect list)" where
  "index_file sc db file_info =
     (case fi_path file_info of
        None \<Rightarrow> Inl KeyError
      | Some path \<Rightarrow>
          (case unmodified db path file_info of
             Inl e \<Rightarrow> Inl e
           | Inr True \<Rightarrow> Inr (db, [])
           | Inr False \<Rightarrow>
               (let content_text =
                      (case extract_text_content sc path of Inl e \<Rightarrow> [] | Inr t \<Rightarrow> t);
                    file_info' = file_info\<lparr>fi_content_text := Some content_text\<rparr>
                in case insert_file db file_info' of
                     Inl e \<Rightarrow> Inl e
                   | Inr (db', file_id) \<Rightarrow> Inr (db', [Extracted path, Written file_info']))))"

definition update_single_file ::
  "scanner \<Rightarrow> database \<Rightarrow> string \<Rightarrow> error + (database \<times> effect list)" where
  "update_single_file sc db file_path =
     (if \<not> path_exists sc file_path
      then Inr (delete_file_by_path db file_path, [Deleted file_path])
      else if is_supported sc file_path
      then (case get_file_info sc file_path of
              Inl e \<Rightarrow> Inl e
            | Inr file_info \<Rightarrow> index_file sc db file_info)
      else Inr (db, []))"

definition remove_file :: "database \<Rightarrow> string \<Rightarrow> database \<times> effect list" where
  "remove_file db file_path = (delete_file_by_path db file_path, [Deleted file_path])"

section \<open>The spec's formula for the lexical score\<close>

text \<open>
  The lexical score in the words of the specification: a filename bonus of 0.5 when the
  query occurs, case-insensitively, in the filename, plus the occurrences of the query in
  the content over the number of words (at least 1), times 100, capped at 0.5.
\<close>

definition lexical_score_spec :: "string \<Rightarrow> string \<Rightarrow> string \<Rightarrow> real" where
  "lexical_score_spec query filename content =
     (if py_in (py_lower query) (py_lower filename) then 0.5 else 0) +
     min 0.5 (real (py_count (py_lower content) (py_lower query)) /
              real (max (length (py_split content)) 1) * 100)"

section \<open>Concrete catalogs, engines and providers\<close>

text \<open>One document, as the scanner reports it and as the indexer stores it.\<close>

definition doc_info :: file_info where
  "doc_info =
     \<lparr>fi_path = Some ''/a/doc.txt'', fi_filename = Some ''doc.txt'',
      fi_extension = Some ''.txt'', fi_file_type = Some ''document'', fi_size = Some 15,
      fi_modified_time = Some 100, fi_created_time = Some 50, fi_content_text = None\<rparr>"

definition doc_row :: file_row where
  "doc_row =
     \<lparr>f_id = 1, f_path = ''/a/doc.txt'', f_filename = ''doc.txt'',
      f_extension = Some ''.txt'', f_file_type = Some ''document'', f_size = Some 15,
      f_modified_time = Some 100, f_created_time = Some 50,
      f_content_text = Some ''alpha beta beta'', f_topic_id = None,
      f_embedding_vector = None\<rparr>"

definition catalog_one :: database where
  "catalog_one =
     \<lparr>files = [doc_row], files_seq = 1, topics = [], metadata = [],
      files_fts = [\<lparr>fts_rowid = 1, fts_filename = ''doc.txt'',
                     fts_content_text = ''alpha beta beta''\<rparr>]\<rparr>"

definition disk_scanner :: scanner where
  "disk_scanner =
     \<lparr>path_exists = (\<lambda>p. p = ''/a/doc.txt''), is_supported = (\<lambda>p. True),
      get_file_info = (\<lambda>p. if p = ''/a/doc.txt'' then Inr doc_info else Inl OSError),
      extract_text_content = (\<lambda>p. Inr ''alpha beta beta'')\<rparr>"



text \<open>Two documents. In \<open>catalog_two\<close> the second holds the word twice, in \<open>catalog_tie\<close> once.\<close>

definition one_row :: file_row where
  "one_row = doc_row\<lparr>f_id := 1, f_path := ''/a/one.txt'', f_filename := ''one.txt'',
                     f_content_text := Some ''beta x''\<rparr>"

definition two_row :: file_row where
  "two_row = doc_row\<lparr>f_id := 2, f_path := ''/a/two.txt'', f_filename := ''two.txt'',
                     f_content_text := Some ''beta beta''\<rparr>"


definition catalog_two :: database where
  "catalog_two =
     \<lparr>files = [one_row, two_row], files_seq = 2, topics = [], metadata = [],
      files_fts = [\<lparr>fts_rowid = 1, fts_filename = ''one.txt'', fts_content_text = ''beta x''\<rparr>,
                   \<lparr>fts_rowid = 2, fts_filename = ''two.txt'', fts_content_text = ''beta beta''\<rparr>]\<rparr>"


text \<open>
  A small full-text engine: a query with an unterminated double-quoted string does not
  parse, a rowid matches when the query occurs in the filename or content of one of its
  entries, and a rowid with more occurrences ranks better.
\<close>

definition term_engine :: fts_engine where
  "term_engine =
     \<lparr>match_syntax_ok = (\<lambda>q. even (length (filter (\<lambda>c. c = CHR 0x22) q))),
      match_row = (\<lambda>idx q rowid.
         list_ex (\<lambda>e. fts_rowid e = rowid \<and>
                       (py_in (py_lower q) (py_lower (fts_filename e)) \<or>
                        py_in (py_lower q) (py_lower (fts_content_text e)))) idx),
      rank_row = (\<lambda>idx q rowid.
         - real (sum_list (map (\<lambda>e. py_count (py_lower (fts_content_text e)) (py_lower q))
                             (filter (\<lambda>e. fts_rowid e = rowid) idx))))\<rparr>"

text \<open>
  A provider that reports a negative cosine similarity, one that raises an
  \<open>Exception\<close>, and one in which a \<open>KeyboardInterrupt\<close> is raised.
\<close>

definition opposite_provider :: topic_model where
  "opposite_provider = (\<lambda>query top_n. Inr [(1, - 0.5)])"

definition broken_provider :: topic_model where
  "broken_provider = (\<lambda>query top_n. Inl (Exception ''embedding model not loaded''))"

definition interrupted_provider :: topic_model where
  "interrupted_provider = (\<lambda>query top_n. Inl (BaseException ''KeyboardInterrupt''))"

section \<open>The store keeps paths unique\<close>



lemma fold_max_ge: "a \<le> fold max xs (a::int)"
proof (induction xs arbitrary: a)
  case Nil
  then show ?case by simp
next
  case (Cons y ys)
  have "a \<le> max y a" by simp
  also have "max y a \<le> fold max ys (max y a)" by (rule Cons.IH)
  finally show ?case by simp
qed

lemma fold_max_mem: "x \<in> set xs \<Longrightarrow> x \<le> fold max xs (a::int)"
proof (induction xs arbitrary: a)
  case Nil
  then show ?case by simp
next
  case (Cons y ys)
  show ?case
  proof (cases "x = y")
    case True
    have "max y a \<le> fold max ys (max y a)" by (rule fold_max_ge)
    then show ?thesis using True by simp
  next
    case False
    then have "x \<in> set ys" using Cons.prems by simp
    then show ?thesis using Cons.IH by simp
  qed
qed

lemma next_rowid_fresh: "next_rowid db \<notin> set (map f_id (files db))"
proof
  assume "next_rowid db \<in> set (map f_id (files db))"
  then have "next_rowid db \<le> fold max (map f_id (files db)) (files_seq db)"
    by (rule fold_max_mem)
  then show False by (simp add: next_rowid_def)
qed

lemma path_after_update:
  "f_path \<circ> (\<lambda>r. if f_id r = i then update_row fi fn r else r) = f_path"
  by (auto simp: fun_eq_iff update_row_def)

lemma id_after_update:
  "f_id \<circ> (\<lambda>r. if f_id r = i then update_row fi fn r else r) = f_id"
  by (auto simp: fun_eq_iff update_row_def)

lemma insert_file_inv:
  assumes "store_inv db" and "insert_file db fi = Inr (db', fid)"
  shows "store_inv db'"
  using assms next_rowid_fresh [of db]
  by (auto simp: insert_file_def store_inv_def Let_def path_after_update id_after_update
      new_row_def split: option.splits if_splits)

lemma delete_file_inv: "store_inv db \<Longrightarrow> store_inv (delete_file db i)"
  by (simp add: store_inv_def delete_file_def distinct_map_filter)

lemma delete_file_by_path_inv: "store_inv db \<Longrightarrow> store_inv (delete_file_by_path db p)"
  by (simp add: delete_file_by_path_def delete_file_inv split: option.splits)

lemma update_file_topic_inv:
  assumes "store_inv db"
  shows "store_inv (update_file_topic db i t e)"
proof -
  let ?g = "\<lambda>r. if f_id r = i then r\<lparr>f_topic_id := Some t, f_embedding_vector := e\<rparr> else r"
  have p: "f_path \<circ> ?g = f_path" by (auto simp: fun_eq_iff)
  have q: "f_id \<circ> ?g = f_id" by (auto simp: fun_eq_iff)
  show ?thesis using assms by (simp add: store_inv_def update_file_topic_def p q)
qed

lemma reachable_inv: "reachable db \<Longrightarrow> store_inv db"
proof (induction rule: reachable.induct)
  case r_init
  then show ?case by (simp add: store_inv_def empty_database_def)
next
  case (r_insert db file_info db' file_id)
  then show ?case by (blast intro: insert_file_inv)
next
  case (r_topic db file_id topic_id embedding)
  then show ?case by (simp add: update_file_topic_inv)
next
  case (r_delete db file_id)
  then show ?case by (simp add: delete_file_inv)
next
  case (r_delete_path db path)
  then show ?case by (simp add: delete_file_by_path_inv)
next
  case (r_insert_topic db topic_id name kws docs)
  then show ?case by (simp add: store_inv_def insert_topic_def)
next
  case (r_clear db)
  then show ?case by (simp add: store_inv_def clear_all_data_def)
qed

lemma insert_existing:
  assumes "get_file_by_path db p = Some ex" and "fi_path fi = Some p"
    and "insert_file db fi = Inr (db', fid)"
  shows "fid = f_id ex \<and> map f_path (files db') = map f_path (files db)
       \<and> map f_id (files db') = map f_id (files db)"
  using assms
  by (auto simp: insert_file_def Let_def path_after_update id_after_update
      split: option.splits if_splits)

lemma insert_fresh:
  assumes "get_file_by_path db p = None" and "fi_path fi = Some p"
    and "insert_file db fi = Inr (db', fid)"
  shows "fid \<notin> set (map f_id (files db)) \<and> map f_path (files db') = map f_path (files db) @ [p]"
  using assms next_rowid_fresh [of db]
  by (auto simp: insert_file_def Let_def new_row_def split: option.splits if_splits)

lemma insert_indexed_doc:
  "insert_file empty_database (doc_info\<lparr>fi_content_text := Some ''alpha beta beta''\<rparr>) =
     Inr (catalog_one, 1)"
  by (simp add: insert_file_def empty_database_def doc_info_def catalog_one_def doc_row_def
      get_file_by_path_def next_rowid_def new_row_def content_or_empty_def bindable_size_def)

lemma reachable_catalog_one: "reachable catalog_one"
  using r_insert [OF r_init insert_indexed_doc] .

text \<open>
  C9. In every catalog the store's operations can build, no two file records share a path.
  \<open>insert_file\<close> on a path that has a record returns that record's id and changes neither
  the paths nor the ids of the table; on a path that has none it adds one record, under an
  id no record has.
\<close>

theorem path_uniqueness:
  assumes "reachable db"
  shows "distinct (map f_path (files db)) \<and>
    (\<forall>fi p db' fid. fi_path fi = Some p \<longrightarrow> insert_file db fi = Inr (db', fid) \<longrightarrow>
       distinct (map f_path (files db')) \<and>
       (case get_file_by_path db p of
          Some ex \<Rightarrow> fid = f_id ex \<and> map f_path (files db') = map f_path (files db) \<and>
                     map f_id (files db') = map f_id (files db)
        | None \<Rightarrow> fid \<notin> set (map f_id (files db)) \<and>
                  map f_path (files db') = map f_path (files db) @ [p]))"
proof -
  have inv: "store_inv db" using assms by (rule reachable_inv)
  have "distinct (map f_path (files db'))
      \<and> (case get_file_by_path db p of
          Some ex \<Rightarrow> fid = f_id ex \<and> map f_path (files db') = map f_path (files db) \<and>
                     map f_id (files db') = map f_id (files db)
        | None \<Rightarrow> fid \<notin> set (map f_id (files db)) \<and>
                  map f_path (files db') = map f_path (files db) @ [p])"
    if a: "fi_path fi = Some p" and b: "insert_file db fi = Inr (db', fid)" for fi p db' fid
  proof -
    have "store_inv db'" using inv b by (rule insert_file_inv)
    then have d: "distinct (map f_path (files db'))" by (simp add: store_inv_def)
    show ?thesis
    proof (cases "get_file_by_path db p")
      case None
      then show ?thesis using d insert_fresh [OF None a b] by simp
    next
      case (Some ex)
      then show ?thesis using d insert_existing [OF Some a b] by simp
    qed
  qed
  then show ?thesis using inv by (simp add: store_inv_def)
qed

theorem path_uniqueness_witness:
  "reachable catalog_one \<and> distinct (map f_path (files catalog_one)) \<and>
   insert_file catalog_one doc_info = Inr (catalog_one\<lparr>files := [doc_row\<lparr>f_content_text := Some []\<rparr>],
      files_fts := [\<lparr>fts_rowid = 1, fts_filename = ''doc.txt'',
                      fts_content_text = ''alpha beta beta''\<rparr>,
                    \<lparr>fts_rowid = 1, fts_filename = ''doc.txt'', fts_content_text = []\<rparr>]\<rparr>, 1) \<and>
   get_file_by_path catalog_one ''/a/doc.txt'' = Some doc_row \<and> f_id doc_row = 1"
proof -
  have ins: "insert_file catalog_one doc_info =
      Inr (catalog_one\<lparr>files := [doc_row\<lparr>f_content_text := Some []\<rparr>],
        files_fts := [\<lparr>fts_rowid = 1, fts_filename = ''doc.txt'',
                        fts_content_text = ''alpha beta beta''\<rparr>,
                      \<lparr>fts_rowid = 1, fts_filename = ''doc.txt'', fts_content_text = []\<rparr>]\<rparr>, 1)"
    by (simp add: insert_file_def doc_info_def catalog_one_def doc_row_def get_file_by_path_def
        update_row_def content_or_empty_def bindable_size_def reindex_def)
  have g: "get_file_by_path catalog_one ''/a/doc.txt'' = Some doc_row"
    by (simp add: get_file_by_path_def catalog_one_def doc_row_def)
  have "distinct (map f_path (files catalog_one))"
    using path_uniqueness [OF reachable_catalog_one] by blast
  then show ?thesis using reachable_catalog_one ins g by (simp add: doc_row_def)
qed

section \<open>What \<open>insert_file\<close> accepts\<close>







section \<open>Deleting a file\<close>

lemma delete_file_keeps_index: "files_fts (delete_file db file_id) = files_fts db"
  by (simp add: delete_file_def)

lemma delete_file_metadata: "metadata (delete_file db file_id) = metadata db"
  by (simp add: delete_file_def)

text \<open>
  C5. After \<open>insert_file\<close> has stored a document, \<open>delete_file\<close> (and
  \<open>delete_file_by_path\<close>) removes the row of \<open>files\<close>, and the full-text index still holds
  the document's entry: a query for a word of the deleted document still matches its rowid
  in the index.
\<close>

theorem delete_file_leaves_index_entry:
  "insert_file empty_database (doc_info\<lparr>fi_content_text := Some ''alpha beta beta''\<rparr>) =
     Inr (catalog_one, 1) \<and>
   files (delete_file catalog_one 1) = [] \<and>
   files_fts (delete_file catalog_one 1) =
     [\<lparr>fts_rowid = 1, fts_filename = ''doc.txt'', fts_content_text = ''alpha beta beta''\<rparr>] \<and>
   match_row term_engine (files_fts (delete_file catalog_one 1)) ''beta'' 1 \<and>
   delete_file_by_path catalog_one ''/a/doc.txt'' = delete_file catalog_one 1"
proof -
  have "files (delete_file catalog_one 1) = [] \<and>
      files_fts (delete_file catalog_one 1) =
        [\<lparr>fts_rowid = 1, fts_filename = ''doc.txt'', fts_content_text = ''alpha beta beta''\<rparr>] \<and>
      delete_file_by_path catalog_one ''/a/doc.txt'' = delete_file catalog_one 1"
    by (simp add: delete_file_def delete_file_by_path_def get_file_by_path_def catalog_one_def
        doc_row_def)
  moreover have "match_row term_engine (files_fts (delete_file catalog_one 1)) ''beta'' 1"
    by (simp add: delete_file_def catalog_one_def term_engine_def py_lower_def char_lower_def)
  ultimately show ?thesis using insert_indexed_doc by simp
qed

section \<open>The incremental skip\<close>

text \<open>
  C6. When the catalog has a record for the candidate's path whose stored modified-time
  is at least the candidate's, \<open>_index_file\<close> returns with the catalog as it was and with
  no extraction call and no store write; so does \<open>update_single_file\<close> on a path that
  exists, is supported and has that candidate as its file information.
\<close>

theorem unmodified_file_is_skipped:
  assumes "fi_path fi = Some p"
    and "get_file_by_path db p = Some existing"
    and "f_modified_time existing = Some existing_mtime"
    and "fi_modified_time fi = Some new_mtime"
    and "new_mtime \<le> existing_mtime"
  shows "index_file sc db fi = Inr (db, []) \<and>
    (path_exists sc file_path \<and> is_supported sc file_path \<and> get_file_info sc file_path = Inr fi
       \<longrightarrow> update_single_file sc db file_path = Inr (db, []))"
proof -
  have "unmodified db p fi = Inr True" using assms by (simp add: unmodified_def)
  then have "index_file sc db fi = Inr (db, [])" using assms(1) by (simp add: index_file_def)
  then show ?thesis by (simp add: update_single_file_def)
qed

theorem unmodified_file_is_skipped_witness:
  "fi_path doc_info = Some ''/a/doc.txt'' \<and>
   get_file_by_path catalog_one ''/a/doc.txt'' = Some doc_row \<and>
   f_modified_time doc_row = Some 100 \<and> fi_modified_time doc_info = Some 100 \<and>
   (100::int) \<le> 100 \<and>
   index_file disk_scanner catalog_one doc_info = Inr (catalog_one, []) \<and>
   path_exists disk_scanner ''/a/doc.txt'' \<and> is_supported disk_scanner ''/a/doc.txt'' \<and>
   get_file_info disk_scanner ''/a/doc.txt'' = Inr doc_info \<and>
   update_single_file disk_scanner catalog_one ''/a/doc.txt'' = Inr (catalog_one, [])"
proof -
  have a: "fi_path doc_info = Some ''/a/doc.txt''" by (simp add: doc_info_def)
  have b: "get_file_by_path catalog_one ''/a/doc.txt'' = Some doc_row"
    by (simp add: get_file_by_path_def catalog_one_def doc_row_def)
  have c: "f_modified_time doc_row = Some 100" by (simp add: doc_row_def)
  have d: "fi_modified_time doc_info = Some 100" by (simp add: doc_info_def)
  have e: "(100::int) \<le> 100" by simp
  have f: "path_exists disk_scanner ''/a/doc.txt'' \<and> is_supported disk_scanner ''/a/doc.txt'' \<and>
      get_file_info disk_scanner ''/a/doc.txt'' = Inr doc_info"
    by (simp add: disk_scanner_def)
  show ?thesis
    using a b c d f
      unmodified_file_is_skipped [OF a b c d e, of disk_scanner "''/a/doc.txt''"]
    by simp
qed

section \<open>The lexical score\<close>

lemma count_from_empty: "count_from k sub [] = 0"
  by simp

text \<open>
  C7. For a non-empty query the score \<open>_keyword_search\<close> gives a record is the formula of
  the specification, applied to the record's filename and content (a NULL content counting
  as the empty text).
\<close>

theorem keyword_score_is_spec_formula:
  assumes "query \<noteq> []"
  shows "keyword_score query file =
    lexical_score_spec query (f_filename file)
      (case f_content_text file of None \<Rightarrow> [] | Some c \<Rightarrow> c)"
proof -
  have q: "py_lower query \<noteq> []" using assms by (simp add: py_lower_def)
  have empty: "lexical_score_spec query fn [] =
      (if py_in (py_lower query) (py_lower fn) then 0.5 else 0)" for fn
    using q by (simp add: lexical_score_spec_def py_count_def py_lower_def)
  show ?thesis
  proof (cases "(case f_content_text file of None \<Rightarrow> [] | Some c \<Rightarrow> c) = []")
    case True
    then show ?thesis by (simp add: keyword_score_def empty)
  next
    case False
    then show ?thesis
      by (simp add: keyword_score_def lexical_score_spec_def Let_def min.commute)
  qed
qed

theorem keyword_score_is_spec_formula_witness:
  "''beta'' \<noteq> [] \<and> keyword_score ''beta'' doc_row = 1 / 2 \<and>
   lexical_score_spec ''beta'' ''doc.txt'' ''alpha beta beta'' = 1 / 2"
proof -
  have a: "''beta'' \<noteq> []" by simp
  have b: "lexical_score_spec ''beta'' ''doc.txt'' ''alpha beta beta'' = 1 / 2"
    by (simp add: lexical_score_spec_def py_lower_def char_lower_def py_count_def py_split_def
        is_space_def)
  have c: "f_filename doc_row = ''doc.txt'' \<and> f_content_text doc_row = Some ''alpha beta beta''"
    by (simp add: doc_row_def)
  show ?thesis using a b c keyword_score_is_spec_formula [OF a, of doc_row] by simp
qed

section \<open>Full-text search: order and failure\<close>











text \<open>
  C10. The keyword is bound to \<open>MATCH\<close> as it is and nothing catches the engine's error:
  for every keyword the engine does not parse as a query, \<open>search_files_by_keyword\<close>
  raises the database's \<open>OperationalError\<close>, and so does \<open>Searcher.search\<close> when the
  keyword is not blank, with or without a provider.
\<close>

theorem unparsed_query_raises:
  assumes "\<not> match_syntax_ok eng query"
  shows "search_files_by_keyword eng db query limit = Inl OperationalError \<and>
    (py_strip query \<noteq> [] \<longrightarrow>
       search eng db tm query max_results use_semantic = Inl OperationalError)"
  using assms
  by (simp add: search_def search_run_def keyword_search_def search_files_by_keyword_def
      ranked_search_def)

theorem unparsed_query_raises_witness:
  "\<not> match_syntax_ok term_engine (CHR 0x22 # ''beta'') \<and>
   py_strip (CHR 0x22 # ''beta'') \<noteq> [] \<and>
   search_files_by_keyword term_engine catalog_one (CHR 0x22 # ''beta'') 20 =
     Inl OperationalError \<and>
   search term_engine catalog_one None (CHR 0x22 # ''beta'') 10 True = Inl OperationalError"
proof -
  have a: "\<not> match_syntax_ok term_engine (CHR 0x22 # ''beta'')"
    by (simp add: term_engine_def)
  have b: "py_strip (CHR 0x22 # ''beta'') \<noteq> []"
    by (simp add: py_strip_def is_space_def)
  show ?thesis
    using a b unparsed_query_raises [OF a, of catalog_one 20 None 10 True] by simp
qed

section \<open>The fused ranking\<close>

lemma sort_desc_sorted: "sorted_wrt (\<lambda>a b. k b \<le> k a) (sort_desc k xs)"
proof -
  have "sorted (map (\<lambda>x. - k x) (sort_desc k xs))"
    unfolding sort_desc_def by (rule sorted_sort_key)
  then show ?thesis by (simp add: sorted_map)
qed

lemma py_take_sorted:
  assumes "sorted_wrt R xs"
  shows "sorted_wrt R (py_take n xs)"
proof (cases "n < 0")
  case True
  have "sorted_wrt R (take (nat (int (length xs) + n)) xs)" using assms by (rule sorted_wrt_take)
  then show ?thesis using True by (simp add: py_take_def)
next
  case False
  have "sorted_wrt R (take (nat n) xs)" using assms by (rule sorted_wrt_take)
  then show ?thesis using False by (simp add: py_take_def)
qed

lemma py_take_length: "0 \<le> n \<Longrightarrow> length (py_take n xs) \<le> nat n"
  by (simp add: py_take_def)

lemma combine_results_sorted:
  "sorted_wrt (\<lambda>a b. snd b \<le> snd a) (combine_results kw sem w1 w2 w3)"
  by (simp add: combine_results_def Let_def sort_desc_sorted)

lemma search_cases:
  assumes "search eng db tm query max_results use_semantic = Inr results"
  shows "results = [] \<or>
    (\<exists>kw sem. results =
       py_take max_results (combine_results kw sem 0.4 (if use_semantic then 0.5 else 0) 0.1))"
  using assms
  by (auto simp: search_def search_run_def Let_def split: if_splits sum.splits)

text \<open>
  C3, as the claim states it, fails. Two records with the same final score are returned
  with id 2 before id 1: the sort has the score as its only key and keeps equal scores in
  candidate order. And a negative \<open>max_results\<close> is a slice from the end, which returns
  more than \<open>max_results\<close> entries.
\<close>

theorem equal_score_not_by_id:
  "search term_engine catalog_two None ''beta'' 10 False =
     Inr [(two_row, 1 / 5), (one_row, 1 / 5)] \<and>
   f_id two_row = 2 \<and> f_id one_row = 1 \<and>
   search term_engine catalog_two None ''beta'' (- 1) False = Inr [(two_row, 1 / 5)]"
  by (simp add: search_def search_run_def keyword_search_def search_files_by_keyword_def
      ranked_search_def term_engine_def catalog_two_def fts_hits_def sql_limit_def one_row_def
      two_row_def doc_row_def py_lower_def char_lower_def py_count_def py_split_def
      is_space_def py_strip_def keyword_score_def combine_results_def sort_desc_def
      set_keyword_score_def add_candidate_def final_score_def py_take_def indexed_rowids_def)

text \<open>
  C3, amended. The list returned by \<open>Searcher.search\<close> is sorted by final score,
  descending, and has at most \<open>max_results\<close> entries when \<open>max_results\<close> is not negative.
  Equal final scores are not ordered by id.
\<close>

theorem search_sorted_and_truncated:
  assumes "search eng db tm query max_results use_semantic = Inr results"
  shows "sorted_wrt (\<lambda>a b. snd b \<le> snd a) results \<and>
    (0 \<le> max_results \<longrightarrow> length results \<le> nat max_results)"
proof -
  from search_cases [OF assms] show ?thesis
  proof
    assume "results = []"
    then show ?thesis by simp
  next
    assume "\<exists>kw sem. results =
       py_take max_results (combine_results kw sem 0.4 (if use_semantic then 0.5 else 0) 0.1)"
    then obtain kw sem w
      where r: "results = py_take max_results (combine_results kw sem 0.4 w 0.1)"
      by blast
    have "sorted_wrt (\<lambda>a b. snd b \<le> snd a) (combine_results kw sem 0.4 w 0.1)"
      by (rule combine_results_sorted)
    then have "sorted_wrt (\<lambda>a b. snd b \<le> snd a) results"
      unfolding r by (rule py_take_sorted)
    moreover have "0 \<le> max_results \<longrightarrow> length results \<le> nat max_results"
      unfolding r by (simp add: py_take_length)
    ultimately show ?thesis by simp
  qed
qed

theorem search_sorted_and_truncated_witness:
  "search term_engine catalog_two None ''beta'' 1 False = Inr [(two_row, 1 / 5)] \<and>
   sorted_wrt (\<lambda>a b. snd b \<le> snd a) [(two_row, 1 / 5 :: real)] \<and>
   (0::int) \<le> 1 \<and> length [(two_row, 1 / 5 :: real)] \<le> nat 1"
proof -
  have s: "search term_engine catalog_two None ''beta'' 1 False = Inr [(two_row, 1 / 5)]"
    by (simp add: search_def search_run_def keyword_search_def search_files_by_keyword_def
        ranked_search_def term_engine_def catalog_two_def fts_hits_def sql_limit_def one_row_def
        two_row_def doc_row_def py_lower_def char_lower_def py_count_def py_split_def
        is_space_def py_strip_def keyword_score_def combine_results_def sort_desc_def
        set_keyword_score_def add_candidate_def final_score_def py_take_def indexed_rowids_def)
  show ?thesis using s search_sorted_and_truncated [OF s] by simp
qed

text \<open>
  C1. With a provider that reports a negative cosine similarity for a document the
  lexical stage does not return, \<open>Searcher.search\<close> returns that document with the final
  score \<open>- 1/4\<close>: the scores are capped at 1 from above (\<open>min(score, 1.0)\<close>) and not
  bounded from below.
\<close>

theorem search_negative_final_score:
  "search term_engine catalog_one (Some opposite_provider) ''gamma'' 10 True =
     Inr [(doc_row, - 1 / 4)]"
  by (simp add: search_def search_run_def keyword_search_def search_files_by_keyword_def
      ranked_search_def term_engine_def catalog_one_def fts_hits_def sql_limit_def doc_row_def
      py_lower_def char_lower_def py_count_def py_split_def is_space_def py_strip_def
      semantic_search_def opposite_provider_def get_file_by_id_def combine_results_def
      sort_desc_def set_semantic_score_def add_candidate_def final_score_def py_take_def
      indexed_rowids_def)

text \<open>The bound from above does hold: no final score exceeds 0.9.\<close>

lemma final_score_upper: "0 \<le> w \<Longrightarrow> final_score 0.4 w 0.1 d \<le> 0.4 + w"
proof -
  assume w: "0 \<le> w"
  have "w * min (c_semantic_score d) 1 \<le> w * 1"
    using w by (intro mult_left_mono) simp_all
  moreover have "(0.4::real) * min (c_keyword_score d) 1 \<le> 0.4 * 1"
    by (intro mult_left_mono) simp_all
  ultimately show ?thesis by (simp add: final_score_def)
qed

lemma py_take_subset: "set (py_take n xs) \<subseteq> set xs"
  by (auto simp: py_take_def dest: in_set_takeD)

lemma combine_results_upper:
  assumes "0 \<le> w" and "fs \<in> set (combine_results kw sem 0.4 w 0.1)"
  shows "snd fs \<le> 0.4 + w"
  using assms final_score_upper [OF assms(1)]
  by (auto simp: combine_results_def Let_def sort_desc_def)

lemma search_score_upper_bound:
  assumes "search eng db tm query max_results use_semantic = Inr results"
    and "fs \<in> set results"
  shows "snd fs \<le> 0.9"
proof -
  from search_cases [OF assms(1)] assms(2)
  obtain kw sem where r: "results =
       py_take max_results (combine_results kw sem 0.4 (if use_semantic then 0.5 else 0) 0.1)"
    by auto
  let ?w = "if use_semantic then 0.5 else 0 :: real"
  have w: "0 \<le> ?w" by simp
  have "fs \<in> set (combine_results kw sem 0.4 ?w 0.1)"
    using assms(2) r py_take_subset by fastforce
  then have "snd fs \<le> 0.4 + ?w" by (rule combine_results_upper [OF w])
  then show ?thesis by (simp split: if_splits)
qed

section \<open>A failing provider\<close>

lemma semantic_search_raised:
  assumes "ProviderRaised q n (Exception e) \<in> set (snd (semantic_search db tm query limit))"
  shows "fst (semantic_search db tm query limit) = Inr [] \<and> q = query \<and> n = limit \<and>
    (\<exists>p. tm = Some p \<and> p query limit = Inl (Exception e))"
  using assms
  by (auto simp: semantic_search_def split: option.splits sum.splits raised.splits)

text \<open>
  C8, as the claim states it, fails: the handler is \<open>except Exception\<close>, so an exception
  outside that class raised in the provider (here a \<open>KeyboardInterrupt\<close>) leaves
  \<open>Searcher.search\<close>, which then returns no result.
\<close>

theorem provider_interrupt_propagates:
  "ProviderRaised ''beta'' 20 (BaseException ''KeyboardInterrupt'') \<in>
     set (snd (search_run term_engine catalog_one (Some interrupted_provider) ''beta'' 10 True)) \<and>
   search term_engine catalog_one (Some interrupted_provider) ''beta'' 10 True =
     Inl (UncaughtBaseException ''KeyboardInterrupt'') \<and>
   search term_engine catalog_one None ''beta'' 10 True = Inr [(doc_row, 1 / 5)]"
proof -
  have kw: "keyword_search term_engine catalog_one ''beta'' 20 = Inr [(doc_row, 1 / 2)]"
    by (simp add: keyword_search_def search_files_by_keyword_def ranked_search_def
        term_engine_def catalog_one_def fts_hits_def sql_limit_def doc_row_def py_lower_def
        char_lower_def py_count_def py_split_def is_space_def keyword_score_def sort_desc_def
        indexed_rowids_def)
  have nb: "py_strip ''beta'' \<noteq> []" by (simp add: py_strip_def is_space_def)
  have r: "search term_engine catalog_one None ''beta'' 10 True = Inr [(doc_row, 1 / 5)]"
    using kw nb
    by (simp add: search_def search_run_def combine_results_def sort_desc_def
        set_keyword_score_def add_candidate_def final_score_def py_take_def doc_row_def)
  show ?thesis
    using kw nb r
    by (simp add: search_def search_run_def semantic_search_def interrupted_provider_def)
qed

text \<open>
  C8, amended. Whenever the provider raises an instance of \<open>Exception\<close> in a run of
  \<open>Searcher.search\<close>, the run returns a result list, and the list is the one computed
  from the lexical candidates with an empty semantic candidate set, which is also what the
  search returns with no provider attached. (The provider is called only when
  \<open>use_semantic\<close> is true and one is attached, and only after the lexical stage has
  returned. An exception outside \<open>Exception\<close> is not recovered.)
\<close>

theorem provider_failure_is_recovered:
  assumes "ProviderRaised q n (Exception e) \<in>
    set (snd (search_run eng db tm query max_results use_semantic))"
  shows "use_semantic \<and> (\<exists>p. tm = Some p \<and> p query (max_results * 2) = Inl (Exception e)) \<and>
    (\<exists>kw. keyword_search eng db query (max_results * 2) = Inr kw \<and>
       search eng db tm query max_results use_semantic =
         Inr (py_take max_results (combine_results kw [] 0.4 0.5 0.1))) \<and>
    search eng db tm query max_results use_semantic =
      search eng db None query max_results use_semantic"
proof -
  have nb: "py_strip query \<noteq> []"
    using assms by (auto simp: search_run_def split: if_splits)
  obtain kw where kw: "keyword_search eng db query (max_results * 2) = Inr kw"
    using assms nb by (cases "keyword_search eng db query (max_results * 2)")
      (auto simp: search_run_def)
  have us: "use_semantic \<and> tm \<noteq> None"
    using assms nb kw by (auto simp: search_run_def Let_def split: if_splits sum.splits)
  then have ev: "ProviderRaised q n (Exception e) \<in>
      set (snd (semantic_search db tm query (max_results * 2)))"
    using assms nb kw by (auto simp: search_run_def Let_def split: sum.splits)
  from semantic_search_raised [OF ev]
  have sem: "fst (semantic_search db tm query (max_results * 2)) = Inr []"
    and p: "\<exists>p. tm = Some p \<and> p query (max_results * 2) = Inl (Exception e)"
    by auto
  have a: "search eng db tm query max_results use_semantic =
      Inr (py_take max_results (combine_results kw [] 0.4 0.5 0.1))"
    using nb kw us sem by (simp add: search_def search_run_def Let_def)
  have b: "search eng db None query max_results use_semantic =
      Inr (py_take max_results (combine_results kw [] 0.4 0.5 0.1))"
    using nb kw us by (simp add: search_def search_run_def Let_def)
  show ?thesis using us p kw a b by simp
qed

theorem provider_failure_is_recovered_witness:
  "ProviderRaised ''beta'' 20 (Exception ''embedding model not loaded'') \<in>
     set (snd (search_run term_engine catalog_one (Some broken_provider) ''beta'' 10 True)) \<and>
   search term_engine catalog_one (Some broken_provider) ''beta'' 10 True =
     search term_engine catalog_one None ''beta'' 10 True \<and>
   search term_engine catalog_one None ''beta'' 10 True = Inr [(doc_row, 1 / 5)]"
proof -
  have kw: "keyword_search term_engine catalog_one ''beta'' 20 = Inr [(doc_row, 1 / 2)]"
    by (simp add: keyword_search_def search_files_by_keyword_def ranked_search_def
        term_engine_def catalog_one_def fts_hits_def sql_limit_def doc_row_def py_lower_def
        char_lower_def py_count_def py_split_def is_space_def keyword_score_def sort_desc_def
        indexed_rowids_def)
  have nb: "py_strip ''beta'' \<noteq> []" by (simp add: py_strip_def is_space_def)
  have ev: "ProviderRaised ''beta'' 20 (Exception ''embedding model not loaded'') \<in>
      set (snd (search_run term_engine catalog_one (Some broken_provider) ''beta'' 10 True))"
    using kw nb by (simp add: search_run_def semantic_search_def broken_provider_def)
  have r: "search term_engine catalog_one None ''beta'' 10 True = Inr [(doc_row, 1 / 5)]"
    using kw nb
    by (simp add: search_def search_run_def combine_results_def sort_desc_def
        set_keyword_score_def add_candidate_def final_score_def py_take_def doc_row_def)
  show ?thesis using ev r provider_failure_is_recovered [OF ev] by simp
qed


end
